theory Spec2Isabelle
  imports Main "HOL-Library.Sublist"
begin

section \<open>Data model\<close>

text \<open>
  A review table is the pandas DataFrame built by \<^verbatim>\<open>load_data\<close> with the three columns
  \<^verbatim>\<open>names=["polarity", "title", "text"]\<close>. A row is a record of the three cells, the
  table is the list of its rows in positional order. The polarity cell is whatever integer
  the file holds: the code never validates it. The cells of the two text columns are
  strings (a missing cell, pandas' NaN, is outside the model). The column \<^verbatim>\<open>text\<close> is
  called \<open>text_field\<close> here.
\<close>

record row =
  polarity :: int
  title :: string
  text_field :: string

type_synonym table = "row list"

text \<open>
  The exceptions that the modelled functions can raise. \<open>KeyError k\<close> is Python's
  exception for a dictionary lookup of the absent key \<open>k\<close>; \<open>LookupError\<close> is what the
  lexical database raises when its corpus is not installed; \<open>ReError\<close> is \<^verbatim>\<open>re.error\<close>,
  raised when a pattern does not compile. \<open>NotModelled\<close> is not a Python exception: it is
  the answer of the regular-expression model of this theory for a pattern that uses syntax
  beyond the fragment it covers.
\<close>

datatype error = KeyError string | LookupError | ReError | NotModelled

section \<open>Sentiment filter\<close>

text \<open>
  \<^verbatim>\<open>sentiment_mapping = {'positive': 2, 'negative': 1}\<close>, a dictionary, as a map.
\<close>

definition sentiment_mapping :: "string \<rightharpoonup> int" where
  "sentiment_mapping = [''positive'' \<mapsto> 2, ''negative'' \<mapsto> 1]"

text \<open>
  \<^verbatim>\<open>return data[data["polarity"] == sentiment_mapping[sentiment]]\<close>: the subscript raises
  KeyError for a label that is not a key; otherwise the boolean mask keeps, in order, the
  rows whose polarity equals the code.
\<close>

definition filter_data_by_sentiment :: "table \<Rightarrow> string \<Rightarrow> error + table" where
  "filter_data_by_sentiment data sentiment =
     (case sentiment_mapping sentiment of
        None \<Rightarrow> Inl (KeyError sentiment)
      | Some code \<Rightarrow> Inr (filter (\<lambda>r. polarity r = code) data))"

section \<open>Synonym search\<close>

subsection \<open>The pattern engine\<close>

text \<open>
  \<^verbatim>\<open>str.contains(pat, case=False)\<close> compiles \<open>pat\<close> with Python's \<^verbatim>\<open>re\<close> module under
  \<^verbatim>\<open>re.IGNORECASE\<close> and keeps the rows in which \<^verbatim>\<open>search\<close> finds a match. The engine
  is a library, so \<open>find_similar_words\<close> below takes the compiler as a parameter. For
  concrete evaluations this section models a fragment of the pattern syntax over ASCII
  text: ordinary characters, the dot, alternation and groups. A pattern that uses any
  other special character is answered with \<open>NotModelled\<close>.
\<close>

datatype regex = Epsilon | Lit char | Dot | Cat regex regex | Alt regex regex

text \<open>The special characters outside the fragment; \<open>CHR 0x5C\<close> is the backslash.\<close>

definition unmodelled_chars :: "char list" where
  "unmodelled_chars = ''^$*+?{}[]'' @ [CHR 0x5C]"

definition lower_char :: "char \<Rightarrow> char" where
  "lower_char c =
     (let n = (of_char c :: nat) in if 65 \<le> n \<and> n \<le> 90 then char_of (n + 32) else c)"

definition close_branch :: "regex option \<Rightarrow> regex \<Rightarrow> regex" where
  "close_branch alts cur = (case alts of None \<Rightarrow> cur | Some a \<Rightarrow> Alt a cur)"

text \<open>
  The parser reads the pattern left to right. \<open>cur\<close> is the sequence read so far in the
  current branch, \<open>alts\<close> the alternation of the branches already closed by a bar, and the
  stack holds the same two for every group that is still open. A closing parenthesis with
  no open group, and the end of the pattern inside a group, are the two \<^verbatim>\<open>re.error\<close>
  cases of the fragment.
\<close>

fun re_parse ::
  "string \<Rightarrow> regex \<Rightarrow> regex option \<Rightarrow> (regex option \<times> regex) list \<Rightarrow> error + regex" where
  "re_parse [] cur alts stack =
     (if stack = [] then Inr (close_branch alts cur) else Inl ReError)"
| "re_parse (c # cs) cur alts stack =
     (if c = CHR ''|'' then re_parse cs Epsilon (Some (close_branch alts cur)) stack
      else if c = CHR ''('' then re_parse cs Epsilon None ((alts, cur) # stack)
      else if c = CHR '')'' then
        (case stack of
           [] \<Rightarrow> Inl ReError
         | (a, outer) # st \<Rightarrow> re_parse cs (Cat outer (close_branch alts cur)) a st)
      else if c = CHR ''.'' then re_parse cs (Cat cur Dot) alts stack
      else if c \<in> set unmodelled_chars then Inl NotModelled
      else re_parse cs (Cat cur (Lit c)) alts stack)"

text \<open>
  \<open>re_match r s\<close> lists what is left of \<open>s\<close> after each way of matching \<open>r\<close> at its
  start. Letters match without regard to case; the dot matches any character but the
  newline \<open>CHR 0x0A\<close>.
\<close>

fun re_match :: "regex \<Rightarrow> string \<Rightarrow> string list" where
  "re_match Epsilon s = [s]"
| "re_match (Lit c) s =
     (case s of [] \<Rightarrow> [] | d # ds \<Rightarrow> if lower_char d = lower_char c then [ds] else [])"
| "re_match Dot s = (case s of [] \<Rightarrow> [] | d # ds \<Rightarrow> if d = CHR 0x0A then [] else [ds])"
| "re_match (Cat r1 r2) s = concat (map (re_match r2) (re_match r1 s))"
| "re_match (Alt r1 r2) s = re_match r1 s @ re_match r2 s"

text \<open>\<^verbatim>\<open>search\<close>: a match starting at some position of the string.\<close>

fun re_search :: "regex \<Rightarrow> string \<Rightarrow> bool" where
  "re_search r [] = (if re_match r [] = [] then False else True)"
| "re_search r (c # cs) = (if re_match r (c # cs) = [] then re_search r cs else True)"

definition re_compile :: "string \<Rightarrow> error + (string \<Rightarrow> bool)" where
  "re_compile pat =
     (case re_parse pat Epsilon None [] of Inl e \<Rightarrow> Inl e | Inr r \<Rightarrow> Inr (re_search r))"

subsection \<open>find\_similar\_words\<close>

text \<open>\<^verbatim>\<open>sep.join(xs)\<close>\<close>

fun str_join :: "string \<Rightarrow> string list \<Rightarrow> string" where
  "str_join sep [] = []"
| "str_join sep [x] = x"
| "str_join sep (x # y # ys) = x @ sep @ str_join sep (y # ys)"

text \<open>
  \<^verbatim>\<open>
  synonyms = []
  if search_word:
      synonyms = [lemma.name() for syn in wordnet.synsets(search_word) for lemma in syn.lemmas()]
      data = data[data['text'].str.contains('|'.join(synonyms), case=False)]
  return data, synonyms
  \<close>
  The lexical database is the parameter \<open>synsets\<close>: for a word it gives, sense by sense,
  the names of the lemmas of the sense, or fails. The pattern compiler is the parameter
  \<open>compile\<close>: it fails or gives the predicate "the pattern is found in this string".
  The pattern is compiled once, before any row is looked at.
\<close>

definition find_similar_words ::
  "(string \<Rightarrow> error + string list list) \<Rightarrow> (string \<Rightarrow> error + (string \<Rightarrow> bool))
     \<Rightarrow> table \<Rightarrow> string \<Rightarrow> error + (table \<times> string list)" where
  "find_similar_words synsets compile data search_word =
     (if search_word = [] then Inr (data, [])
      else
        (case synsets search_word of
           Inl e \<Rightarrow> Inl e
         | Inr senses \<Rightarrow>
             (let synonyms = concat senses in
              case compile (str_join ''|'' synonyms) of
                Inl e \<Rightarrow> Inl e
              | Inr found \<Rightarrow> Inr (filter (\<lambda>r. found (text_field r)) data, synonyms))))"

text \<open>
  The matching that the specification asks for, in its words: the body contains the term
  as a case-insensitive literal substring.
\<close>

fun contains_literal :: "string \<Rightarrow> string \<Rightarrow> bool" where
  "contains_literal t [] = (t = [])"
| "contains_literal t (c # cs) =
     (if prefix (map lower_char t) (map lower_char (c # cs)) then True
      else contains_literal t cs)"

section \<open>Frequency summary\<close>

text \<open>
  A value in a list that Python returns: a string, or a tuple of a string and a number.
\<close>

datatype py_value = PyStr string | PyTuple string nat

text \<open>
  \<^verbatim>\<open>re.findall(r'\w+', text)\<close>: the runs of word characters from left to right, each as
  long as possible; \<open>cur\<close> is the run being read. Which characters the class \<^verbatim>\<open>\w\<close>
  holds is decided by the pattern library (for a Python string it is Unicode's letters,
  digits and numeric characters, and the underscore), so the class is the parameter
  \<open>is_word\<close> of the tokenizer and of everything built on it.
\<close>

fun findall_words :: "(char \<Rightarrow> bool) \<Rightarrow> string \<Rightarrow> string \<Rightarrow> string list" where
  "findall_words is_word cur [] = (if cur = [] then [] else [cur])"
| "findall_words is_word cur (c # cs) =
     (if is_word c then findall_words is_word (cur @ [c]) cs
      else if cur = [] then findall_words is_word [] cs
      else cur # findall_words is_word [] cs)"

text \<open>
  The class \<^verbatim>\<open>\w\<close> of Python on the code points below 256, for the evaluations: the
  digits, the letters and the underscore of ASCII, and of the upper half the letters
  (\<open>0xAA\<close>, \<open>0xB5\<close>, \<open>0xBA\<close>, \<open>0xC0\<close> to \<open>0xFF\<close> without the two signs \<open>0xD7\<close> and
  \<open>0xF7\<close>), the superscript digits (\<open>0xB2\<close>, \<open>0xB3\<close>, \<open>0xB9\<close>) and the fractions
  (\<open>0xBC\<close> to \<open>0xBE\<close>).
\<close>

definition is_word_char :: "char \<Rightarrow> bool" where
  "is_word_char c = (let n = (of_char c :: nat) in
      (48 \<le> n \<and> n \<le> 57) \<or> (65 \<le> n \<and> n \<le> 90) \<or> n = 95 \<or> (97 \<le> n \<and> n \<le> 122)
      \<or> n = 170 \<or> n = 178 \<or> n = 179 \<or> n = 181 \<or> n = 185 \<or> n = 186
      \<or> (188 \<le> n \<and> n \<le> 190) \<or> (192 \<le> n \<and> n \<le> 214) \<or> (216 \<le> n \<and> n \<le> 246)
      \<or> (248 \<le> n \<and> n \<le> 255))"

text \<open>\<^verbatim>\<open>data['text'].str.cat(sep=' ')\<close>\<close>

fun str_cat :: "string \<Rightarrow> string list \<Rightarrow> string" where
  "str_cat sep [] = []"
| "str_cat sep [x] = x"
| "str_cat sep (x # y # ys) = x @ sep @ str_cat sep (y # ys)"

text \<open>
  \<^verbatim>\<open>Counter(words)\<close> is a dictionary that keeps its keys in the order of their first
  insertion, so it is an association list here. Counting a word adds one to its entry, or
  appends a new entry at the end.
\<close>

fun counter_add :: "(string \<times> nat) list \<Rightarrow> string \<Rightarrow> (string \<times> nat) list" where
  "counter_add [] w = [(w, 1)]"
| "counter_add ((k, c) # kvs) w =
     (if k = w then (k, c + 1) # kvs else (k, c) # counter_add kvs w)"

definition Counter :: "string list \<Rightarrow> (string \<times> nat) list" where
  "Counter ws = foldl counter_add [] ws"

text \<open>
  \<^verbatim>\<open>most_common(n)\<close> is \<^verbatim>\<open>heapq.nlargest(n, items, key=count)\<close>, which the library
  documents as \<^verbatim>\<open>sorted(items, key=count, reverse=True)[:n]\<close>: a stable sort by descending
  count, then the first \<open>n\<close>.
\<close>

definition by_count_desc :: "(string \<times> nat) list \<Rightarrow> (string \<times> nat) list" where
  "by_count_desc cnt = sort_key (\<lambda>(w, c). - int c) cnt"

definition most_common :: "nat \<Rightarrow> (string \<times> nat) list \<Rightarrow> (string \<times> nat) list" where
  "most_common n cnt = take n (by_count_desc cnt)"

definition generate_word_cloud :: "(char \<Rightarrow> bool) \<Rightarrow> table \<Rightarrow> py_value list" where
  "generate_word_cloud is_word data =
     (let text = str_cat '' '' (map text_field data);
          ws = findall_words is_word [] text;
          word_count = Counter ws;
          common_words = most_common 20 word_count
      in map (\<lambda>(word, count). PyStr word) common_words)"

text \<open>
  For the statement of the ranking: the tokens of a table, and the distinct elements of a
  list in the order of their first occurrence.
\<close>

definition table_tokens :: "(char \<Rightarrow> bool) \<Rightarrow> table \<Rightarrow> string list" where
  "table_tokens is_word data = findall_words is_word [] (str_cat '' '' (map text_field data))"

fun first_seen :: "'a list \<Rightarrow> 'a list" where
  "first_seen [] = []"
| "first_seen (x # xs) = x # removeAll x (first_seen xs)"

section \<open>Tabular export\<close>

definition chunk_size :: nat where
  "chunk_size = 750000"

definition temp_dir :: string where
  "temp_dir = ''temp_excel''"

definition default_max_rows :: int where
  "default_max_rows = 250000"

text \<open>The decimal digits of a number, as the f-string prints them.\<close>

definition digit_char :: "nat \<Rightarrow> char" where
  "digit_char d = char_of (48 + d)"

fun str_of_nat :: "nat \<Rightarrow> string" where
  "str_of_nat n =
     (if n < 10 then [digit_char n] else str_of_nat (n div 10) @ [digit_char (n mod 10)])"

declare str_of_nat.simps [simp del]

definition path_join :: "string \<Rightarrow> string \<Rightarrow> string" where
  "path_join dir name = dir @ ''/'' @ name"

text \<open>\<^verbatim>\<open>data.iloc[i:j]\<close> for \<open>0 \<le> i \<le> j\<close>: the rows at positions \<open>i\<close> to \<open>j - 1\<close> that exist.\<close>

definition iloc_slice :: "nat \<Rightarrow> nat \<Rightarrow> 'a list \<Rightarrow> 'a list" where
  "iloc_slice i j xs = take (j - i) (drop i xs)"

text \<open>
  \<^verbatim>\<open>chunk_data[:max_rows]\<close>: the first \<open>max_rows\<close> rows, and for a negative \<open>max_rows\<close>
  all rows but the last \<open>- max_rows\<close>.
\<close>

definition slice_to :: "int \<Rightarrow> 'a list \<Rightarrow> 'a list" where
  "slice_to m xs = (if 0 \<le> m then take (nat m) xs else take (length xs - nat (- m)) xs)"

text \<open>
  The loop \<^verbatim>\<open>for i in range(0, len(data), chunk_size)\<close>. Each round writes one file; the
  result lists the files written, in order, each with its path and the rows written to it.
\<close>

function export_loop :: "nat \<Rightarrow> table \<Rightarrow> int \<Rightarrow> (string \<times> table) list" where
  "export_loop i data max_rows =
     (if i < length data then
        (let file_name = ''data_part_'' @ str_of_nat (i div chunk_size + 1) @ ''.xlsx'';
             file_path = path_join temp_dir file_name;
             chunk_data = iloc_slice i (i + chunk_size) data;
             chunk_data = (if int (length chunk_data) > max_rows
                           then slice_to max_rows chunk_data else chunk_data)
         in (file_path, chunk_data) # export_loop (i + chunk_size) data max_rows)
      else [])"
  by pat_completeness auto
termination
  by (relation "measure (\<lambda>(i, data, max_rows). length data - i)") (auto simp: chunk_size_def)

declare export_loop.simps [simp del]

text \<open>
  \<open>excel_files\<close> is the effect of \<^verbatim>\<open>create_single_excel\<close>, the files it writes;
  \<open>create_single_excel\<close> is its return value, the list \<^verbatim>\<open>file_paths\<close>.
\<close>

definition excel_files :: "table \<Rightarrow> int \<Rightarrow> (string \<times> table) list" where
  "excel_files data max_rows = export_loop 0 data max_rows"

definition create_single_excel :: "table \<Rightarrow> int \<Rightarrow> string list" where
  "create_single_excel data max_rows = map fst (excel_files data max_rows)"

section \<open>Example data\<close>

text \<open>A table of 300 rows, all different.\<close>

definition rows300 :: table where
  "rows300 = map (\<lambda>i. \<lparr>polarity = 2, title = ''review'', text_field = str_of_nat i\<rparr>) [0..<300]"

text \<open>
  A lexical database with three entries: the first noun sense of \<open>doctor\<close> with its
  lemma \<open>Dr.\<close>, and two entries whose only lemma holds a parenthesis.
\<close>

definition example_synsets :: "string \<Rightarrow> error + string list list" where
  "example_synsets w =
     (if w = ''doctor'' then Inr [[''doctor'', ''doc'', ''physician'', ''MD'', ''Dr.'', ''medico'']]
      else if w = ''f'' then Inr [[''f(x)'']]
      else if w = ''smiley'' then Inr [['':)'']]
      else Inr [])"

definition example_reviews :: table where
  "example_reviews =
     [\<lparr>polarity = 1, title = ''sleep'', text_field = ''bad dream''\<rparr>,
      \<lparr>polarity = 2, title = ''visit'', text_field = ''my Doctor was kind''\<rparr>,
      \<lparr>polarity = 2, title = ''meh'', text_field = ''so so''\<rparr>]"

definition cat_dog_table :: table where
  "cat_dog_table =
     [\<lparr>polarity = 2, title = ''pets'', text_field = ''cat dog cat''\<rparr>,
      \<lparr>polarity = 1, title = ''more pets'', text_field = ''dog bird''\<rparr>]"

section \<open>Properties of the sentiment filter\<close>

lemma sentiment_mapping_positive: "sentiment_mapping ''positive'' = Some 2"
  by (simp add: sentiment_mapping_def)

lemma sentiment_mapping_negative: "sentiment_mapping ''negative'' = Some 1"
  by (simp add: sentiment_mapping_def)

lemma sentiment_mapping_other:
  "s \<noteq> ''positive'' \<Longrightarrow> s \<noteq> ''negative'' \<Longrightarrow> sentiment_mapping s = None"
  by (simp add: sentiment_mapping_def)

lemma sentiment_mapping_dom: "dom sentiment_mapping = {''positive'', ''negative''}"
  by (auto simp: sentiment_mapping_def)

lemma filter_positive:
  "filter_data_by_sentiment data ''positive'' = Inr (filter (\<lambda>r. polarity r = 2) data)"
  by (simp add: filter_data_by_sentiment_def sentiment_mapping_positive)

lemma filter_negative:
  "filter_data_by_sentiment data ''negative'' = Inr (filter (\<lambda>r. polarity r = 1) data)"
  by (simp add: filter_data_by_sentiment_def sentiment_mapping_negative)

lemma filter_by_sentiment_Inr:
  assumes "filter_data_by_sentiment data s = Inr d"
  obtains code where "sentiment_mapping s = Some code"
    and "d = filter (\<lambda>r. polarity r = code) data"
  using assms by (auto simp: filter_data_by_sentiment_def split: option.splits)

text \<open>
  Claim C4. The sentiment filter fails exactly when the label is outside the two recognised
  values \<open>positive\<close> and \<open>negative\<close>, and returns normally otherwise. The failure is the
  KeyError of the dictionary subscript, carrying the offending label (the specification's
  InvalidSentimentError); a recognised label gives the filtered table.
\<close>

theorem filter_fails_iff_unrecognised:
  "(filter_data_by_sentiment data s = Inl (KeyError s)) = (s \<notin> {''positive'', ''negative''})
   \<and> (\<exists>d. filter_data_by_sentiment data s = Inr d) = (s \<in> {''positive'', ''negative''})
   \<and> (\<forall>e. filter_data_by_sentiment data s = Inl e \<longrightarrow> e = KeyError s)"
proof -
  consider "s = ''positive''" | "s = ''negative''" | "s \<noteq> ''positive''" "s \<noteq> ''negative''"
    by blast
  then show ?thesis
  proof cases
    case 1
    then show ?thesis by (simp add: filter_positive)
  next
    case 2
    then show ?thesis by (simp add: filter_negative)
  next
    case 3
    then have "filter_data_by_sentiment data s = Inl (KeyError s)"
      by (simp add: filter_data_by_sentiment_def sentiment_mapping_other)
    with 3 show ?thesis by simp
  qed
qed

theorem filter_fails_iff_unrecognised_witness:
  "filter_data_by_sentiment [\<lparr>polarity = 2, title = ''t'', text_field = ''good''\<rparr>] ''neutral''
     = Inl (KeyError ''neutral'')
   \<and> filter_data_by_sentiment [\<lparr>polarity = 2, title = ''t'', text_field = ''good''\<rparr>] ''positive''
     = Inr [\<lparr>polarity = 2, title = ''t'', text_field = ''good''\<rparr>]"
proof -
  let ?d = "[\<lparr>polarity = 2, title = ''t'', text_field = ''good''\<rparr>]"
  have "(filter_data_by_sentiment ?d ''neutral'' = Inl (KeyError ''neutral''))
     = (''neutral'' \<notin> {''positive'', ''negative''})"
    by (rule conjunct1 [OF filter_fails_iff_unrecognised])
  moreover have "''neutral'' \<notin> {''positive'', ''negative''}" by simp
  ultimately have a: "filter_data_by_sentiment ?d ''neutral'' = Inl (KeyError ''neutral'')"
    by blast
  have b: "filter_data_by_sentiment ?d ''positive'' = Inr ?d"
    by (simp add: filter_positive)
  from a b show ?thesis by blast
qed

text \<open>
  Claim C5. On a table whose polarity codes are the two codes of the data model (1 for
  negative, 2 for positive), filtering by \<open>positive\<close> and by \<open>negative\<close> both succeed, the
  two results have no row in common, and their lengths add up to the length of the table.
\<close>

theorem filter_partitions_table:
  assumes "\<forall>r \<in> set data. polarity r = 1 \<or> polarity r = 2"
  shows "\<exists>pos neg. filter_data_by_sentiment data ''positive'' = Inr pos
           \<and> filter_data_by_sentiment data ''negative'' = Inr neg
           \<and> set pos \<inter> set neg = {}
           \<and> length pos + length neg = length data"
proof -
  let ?pos = "filter (\<lambda>r. polarity r = 2) data"
  let ?neg = "filter (\<lambda>r. polarity r = 1) data"
  have disj: "set ?pos \<inter> set ?neg = {}" by auto
  from assms have "?neg = filter (\<lambda>r. \<not> polarity r = 2) data"
    by (intro filter_cong) auto
  then have "length ?pos + length ?neg = length data"
    using sum_length_filter_compl [of "\<lambda>r. polarity r = 2" data] by simp
  with disj show ?thesis
    by (simp add: filter_positive filter_negative)
qed

theorem filter_partitions_table_witness:
  "filter_data_by_sentiment
      [\<lparr>polarity = 2, title = ''a'', text_field = ''great''\<rparr>,
       \<lparr>polarity = 1, title = ''b'', text_field = ''awful''\<rparr>,
       \<lparr>polarity = 2, title = ''c'', text_field = ''fine''\<rparr>] ''positive''
     = Inr [\<lparr>polarity = 2, title = ''a'', text_field = ''great''\<rparr>,
            \<lparr>polarity = 2, title = ''c'', text_field = ''fine''\<rparr>]
   \<and> (\<exists>pos neg. filter_data_by_sentiment
      [\<lparr>polarity = 2, title = ''a'', text_field = ''great''\<rparr>,
       \<lparr>polarity = 1, title = ''b'', text_field = ''awful''\<rparr>,
       \<lparr>polarity = 2, title = ''c'', text_field = ''fine''\<rparr>] ''positive'' = Inr pos
     \<and> filter_data_by_sentiment
      [\<lparr>polarity = 2, title = ''a'', text_field = ''great''\<rparr>,
       \<lparr>polarity = 1, title = ''b'', text_field = ''awful''\<rparr>,
       \<lparr>polarity = 2, title = ''c'', text_field = ''fine''\<rparr>] ''negative'' = Inr neg
     \<and> set pos \<inter> set neg = {} \<and> length pos + length neg = 3)"
proof -
  let ?d = "[\<lparr>polarity = 2, title = ''a'', text_field = ''great''\<rparr>,
       \<lparr>polarity = 1, title = ''b'', text_field = ''awful''\<rparr>,
       \<lparr>polarity = 2, title = ''c'', text_field = ''fine''\<rparr>]"
  have h: "\<forall>r \<in> set ?d. polarity r = 1 \<or> polarity r = 2" by simp
  have "\<exists>pos neg. filter_data_by_sentiment ?d ''positive'' = Inr pos
           \<and> filter_data_by_sentiment ?d ''negative'' = Inr neg
           \<and> set pos \<inter> set neg = {}
           \<and> length pos + length neg = length ?d"
    by (rule filter_partitions_table [OF h])
  moreover have "filter_data_by_sentiment ?d ''positive''
     = Inr [\<lparr>polarity = 2, title = ''a'', text_field = ''great''\<rparr>,
            \<lparr>polarity = 2, title = ''c'', text_field = ''fine''\<rparr>]"
    by (simp add: filter_positive)
  ultimately show ?thesis by simp
qed

text \<open>
  Claim C7. The sentiment filter is idempotent: when filtering by a label succeeds,
  filtering the result by the same label succeeds and gives the same table; this is the
  case for both recognised labels.
\<close>

theorem filter_idempotent:
  "(filter_data_by_sentiment data s = Inr d \<longrightarrow> filter_data_by_sentiment d s = Inr d)
   \<and> (s \<in> {''positive'', ''negative''} \<longrightarrow>
        (\<exists>d. filter_data_by_sentiment data s = Inr d \<and> filter_data_by_sentiment d s = Inr d))"
proof -
  have idem: "filter_data_by_sentiment d' s = Inr d'"
    if "filter_data_by_sentiment data s = Inr d'" for d'
    using that by (auto simp: filter_data_by_sentiment_def split: option.splits)
  have "\<exists>d. filter_data_by_sentiment data s = Inr d" if "s \<in> {''positive'', ''negative''}"
    using that by (auto simp: filter_positive filter_negative)
  with idem show ?thesis by blast
qed

theorem filter_idempotent_witness:
  "filter_data_by_sentiment
      [\<lparr>polarity = 1, title = ''b'', text_field = ''awful''\<rparr>,
       \<lparr>polarity = 2, title = ''c'', text_field = ''fine''\<rparr>] ''negative''
     = Inr [\<lparr>polarity = 1, title = ''b'', text_field = ''awful''\<rparr>]
   \<and> filter_data_by_sentiment [\<lparr>polarity = 1, title = ''b'', text_field = ''awful''\<rparr>] ''negative''
     = Inr [\<lparr>polarity = 1, title = ''b'', text_field = ''awful''\<rparr>]"
proof -
  let ?d = "[\<lparr>polarity = 1, title = ''b'', text_field = ''awful''\<rparr>,
       \<lparr>polarity = 2, title = ''c'', text_field = ''fine''\<rparr>]"
  let ?r = "[\<lparr>polarity = 1, title = ''b'', text_field = ''awful''\<rparr>]"
  have h: "filter_data_by_sentiment ?d ''negative'' = Inr ?r"
    by (simp add: filter_negative)
  with filter_idempotent [of ?d "''negative''" ?r]
  have "filter_data_by_sentiment ?r ''negative'' = Inr ?r" by blast
  with h show ?thesis by simp
qed

section \<open>Properties of the export\<close>

lemma str_of_nat_1: "str_of_nat 1 = ''1''"
  by code_simp

lemma export_loop_done: "length data \<le> i \<Longrightarrow> export_loop i data max_rows = []"
  by (subst export_loop.simps) simp

lemma export_loop_single:
  assumes "data \<noteq> []" and "length data \<le> chunk_size"
  shows "export_loop 0 data max_rows =
     [(''temp_excel/data_part_1.xlsx'',
       if int (length data) > max_rows then slice_to max_rows data else data)]"
proof -
  have rest: "export_loop (0 + chunk_size) data max_rows = []"
    using assms(2) by (simp add: export_loop_done)
  have slice: "iloc_slice 0 (0 + chunk_size) data = data"
    using assms(2) by (simp add: iloc_slice_def)
  have name: "str_of_nat (0 div chunk_size + 1) = ''1''"
    using str_of_nat_1 by simp
  have "0 < length data" using assms(1) by simp
  then show ?thesis
    by (subst export_loop.simps)
       (simp only: rest slice name Let_def path_join_def temp_dir_def if_True append.simps)
qed

lemma length_rows300: "length rows300 = 300"
  by (simp add: rows300_def)

text \<open>
  Claim C1. Exporting the 300-row table with at most 100 rows per sheet writes one file
  only, holding the first 100 rows; the other 200 rows are in no file, so the chunks do
  not reproduce the table.
\<close>

theorem export_truncates_300_rows:
  "length rows300 = 300
   \<and> excel_files rows300 100 = [(''temp_excel/data_part_1.xlsx'', take 100 rows300)]
   \<and> create_single_excel rows300 100 = [''temp_excel/data_part_1.xlsx'']
   \<and> length (concat (map snd (excel_files rows300 100))) = 100
   \<and> concat (map snd (excel_files rows300 100)) \<noteq> rows300"
proof -
  have ne: "rows300 \<noteq> []" using length_rows300 by auto
  have le: "length rows300 \<le> chunk_size" by (simp add: length_rows300 chunk_size_def)
  have files: "excel_files rows300 100 = [(''temp_excel/data_part_1.xlsx'', take 100 rows300)]"
    unfolding excel_files_def export_loop_single [OF ne le]
    by (simp add: length_rows300 slice_to_def)
  have len: "length (concat (map snd (excel_files rows300 100))) = 100"
    by (simp add: files length_rows300)
  have "concat (map snd (excel_files rows300 100)) \<noteq> rows300"
  proof
    assume "concat (map snd (excel_files rows300 100)) = rows300"
    with len have "length rows300 = 100" by simp
    with length_rows300 show False by simp
  qed
  with files len show ?thesis
    by (simp add: create_single_excel_def length_rows300)
qed

text \<open>
  Claim C10. With the default \<open>max_rows\<close> of 250000, a non-empty table of at most 250000
  rows is written to exactly one file that holds all its rows in order, and the empty
  table is written to no file.
\<close>

theorem export_default_single_chunk:
  "(data \<noteq> [] \<and> length data \<le> 250000 \<longrightarrow>
      excel_files data default_max_rows = [(''temp_excel/data_part_1.xlsx'', data)]
      \<and> create_single_excel data default_max_rows = [''temp_excel/data_part_1.xlsx''])
   \<and> excel_files [] default_max_rows = []
   \<and> create_single_excel [] default_max_rows = []"
proof -
  have empty: "excel_files [] default_max_rows = []"
    by (simp add: excel_files_def export_loop_done)
  have one: "excel_files data default_max_rows = [(''temp_excel/data_part_1.xlsx'', data)]"
    if "data \<noteq> []" and "length data \<le> 250000"
  proof -
    from that(2) have "length data \<le> chunk_size" by (simp add: chunk_size_def)
    from export_loop_single [OF that(1) this, of default_max_rows] that(2)
    show ?thesis by (simp add: excel_files_def default_max_rows_def)
  qed
  from empty one show ?thesis
    by (simp add: create_single_excel_def)
qed

theorem export_default_single_chunk_witness:
  "excel_files example_reviews default_max_rows
     = [(''temp_excel/data_part_1.xlsx'', example_reviews)]
   \<and> create_single_excel example_reviews default_max_rows = [''temp_excel/data_part_1.xlsx'']"
proof -
  have "example_reviews \<noteq> [] \<and> length example_reviews \<le> 250000"
    by (simp add: example_reviews_def)
  with export_default_single_chunk [of example_reviews] show ?thesis by blast
qed

section \<open>Properties of the synonym search\<close>

lemma find_similar_words_empty_word:
  "find_similar_words synsets compile data [] = Inr (data, [])"
  by (simp add: find_similar_words_def)

lemma find_similar_words_Inr:
  assumes "find_similar_words synsets compile data w = Inr (d, syn)"
  shows "(w = [] \<and> d = data \<and> syn = [])
     \<or> (\<exists>senses found. w \<noteq> [] \<and> synsets w = Inr senses \<and> syn = concat senses
           \<and> compile (str_join ''|'' syn) = Inr found
           \<and> d = filter (\<lambda>r. found (text_field r)) data)"
  using assms
  by (auto simp: find_similar_words_def Let_def split: if_splits sum.splits)

lemma re_search_Epsilon: "re_search Epsilon s"
  by (cases s) simp_all

lemma re_compile_empty: "re_compile [] = Inr (re_search Epsilon)"
  by (simp add: re_compile_def close_branch_def)

text \<open>
  Claim C9. With the empty query string, \<open>find_similar_words\<close> returns the empty synonym
  list and the table it was given, whatever the lexical database and the pattern compiler
  are (also when both always fail): neither is consulted.
\<close>

theorem empty_query_no_lookup:
  "find_similar_words synsets compile data '''' = Inr (data, [])
   \<and> find_similar_words (\<lambda>w. Inl LookupError) (\<lambda>p. Inl ReError) data '''' = Inr (data, [])"
  by (simp add: find_similar_words_empty_word)

text \<open>
  Claim C6. Whenever the search ends with an empty synonym list (the query is empty, or
  the database has no lemma for it), the table returned is the table given; with the
  empty query this is so for every database and compiler, and so a search with no
  synonyms after a sentiment filter returns the filtered table.
\<close>

theorem empty_synonyms_table_unchanged:
  "find_similar_words synsets compile data '''' = Inr (data, [])
   \<and> (find_similar_words synsets re_compile data w = Inr (d, []) \<longrightarrow> d = data)
   \<and> (w \<noteq> [] \<and> synsets w = Inr [] \<longrightarrow> find_similar_words synsets re_compile data w = Inr (data, []))
   \<and> (filter_data_by_sentiment t s = Inr f \<longrightarrow>
        find_similar_words synsets compile f '''' = Inr (f, []))"
proof -
  have a: "d = data" if "find_similar_words synsets re_compile data w = Inr (d, [])"
  proof -
    from find_similar_words_Inr [OF that]
    consider "d = data"
      | found where "re_compile (str_join ''|'' []) = Inr found"
          and "d = filter (\<lambda>r. found (text_field r)) data"
      by auto
    then show ?thesis
    proof cases
      case 1
      then show ?thesis .
    next
      case 2
      from 2(1) have "found = re_search Epsilon" by (simp add: re_compile_empty)
      with 2(2) show ?thesis by (simp add: re_search_Epsilon)
    qed
  qed
  have b: "find_similar_words synsets re_compile data w = Inr (data, [])"
    if "w \<noteq> []" and "synsets w = Inr []"
    using that by (simp add: find_similar_words_def re_compile_empty re_search_Epsilon)
  from a b show ?thesis
    by (simp add: find_similar_words_empty_word)
qed

theorem empty_synonyms_table_unchanged_witness:
  "find_similar_words example_synsets re_compile example_reviews ''zzz''
     = Inr (example_reviews, [])
   \<and> filter_data_by_sentiment example_reviews ''negative''
     = Inr [\<lparr>polarity = 1, title = ''sleep'', text_field = ''bad dream''\<rparr>]
   \<and> find_similar_words example_synsets re_compile
        [\<lparr>polarity = 1, title = ''sleep'', text_field = ''bad dream''\<rparr>] ''''
     = Inr ([\<lparr>polarity = 1, title = ''sleep'', text_field = ''bad dream''\<rparr>], [])"
proof -
  let ?f = "[\<lparr>polarity = 1, title = ''sleep'', text_field = ''bad dream''\<rparr>]"
  note inst = empty_synonyms_table_unchanged
    [of example_synsets re_compile example_reviews "''zzz''" example_reviews
        example_reviews "''negative''" ?f]
  have h1: "''zzz'' \<noteq> [] \<and> example_synsets ''zzz'' = Inr []"
    by (simp add: example_synsets_def)
  have h2: "filter_data_by_sentiment example_reviews ''negative'' = Inr ?f"
    by (simp add: filter_negative example_reviews_def)
  from inst h1 have c1: "find_similar_words example_synsets re_compile example_reviews ''zzz''
     = Inr (example_reviews, [])" by blast
  from inst h2 have c2: "find_similar_words example_synsets re_compile ?f '''' = Inr (?f, [])"
    by blast
  from c1 h2 c2 show ?thesis by blast
qed

text \<open>
  Claim C8. A table returned by the sentiment filter or by the synonym search is a
  subsequence of the table given: each of its records is a record of the input with the
  same three fields, and the records keep their relative order.
\<close>

theorem derived_table_subseq:
  "(filter_data_by_sentiment data s = Inr d \<longrightarrow> subseq d data \<and> set d \<subseteq> set data)
   \<and> (find_similar_words synsets compile data w = Inr (d', syn) \<longrightarrow>
        subseq d' data \<and> set d' \<subseteq> set data)"
proof -
  have a: "subseq d data \<and> set d \<subseteq> set data" if "filter_data_by_sentiment data s = Inr d"
    using that by (rule filter_by_sentiment_Inr) auto
  have b: "subseq d' data \<and> set d' \<subseteq> set data"
    if "find_similar_words synsets compile data w = Inr (d', syn)"
    using find_similar_words_Inr [OF that] by auto
  from a b show ?thesis by blast
qed

lemma doctor_search:
  "find_similar_words example_synsets re_compile example_reviews ''doctor''
     = Inr ([\<lparr>polarity = 1, title = ''sleep'', text_field = ''bad dream''\<rparr>,
             \<lparr>polarity = 2, title = ''visit'', text_field = ''my Doctor was kind''\<rparr>],
            [''doctor'', ''doc'', ''physician'', ''MD'', ''Dr.'', ''medico''])"
  by code_simp

theorem derived_table_subseq_witness:
  "filter_data_by_sentiment example_reviews ''positive''
     = Inr [\<lparr>polarity = 2, title = ''visit'', text_field = ''my Doctor was kind''\<rparr>,
            \<lparr>polarity = 2, title = ''meh'', text_field = ''so so''\<rparr>]
   \<and> subseq [\<lparr>polarity = 2, title = ''visit'', text_field = ''my Doctor was kind''\<rparr>,
            \<lparr>polarity = 2, title = ''meh'', text_field = ''so so''\<rparr>] example_reviews
   \<and> subseq [\<lparr>polarity = 1, title = ''sleep'', text_field = ''bad dream''\<rparr>,
             \<lparr>polarity = 2, title = ''visit'', text_field = ''my Doctor was kind''\<rparr>]
        example_reviews"
proof -
  let ?p = "[\<lparr>polarity = 2, title = ''visit'', text_field = ''my Doctor was kind''\<rparr>,
            \<lparr>polarity = 2, title = ''meh'', text_field = ''so so''\<rparr>]"
  let ?q = "[\<lparr>polarity = 1, title = ''sleep'', text_field = ''bad dream''\<rparr>,
             \<lparr>polarity = 2, title = ''visit'', text_field = ''my Doctor was kind''\<rparr>]"
  let ?syn = "[''doctor'', ''doc'', ''physician'', ''MD'', ''Dr.'', ''medico'']"
  note inst = derived_table_subseq
    [of example_reviews "''positive''" ?p example_synsets re_compile "''doctor''" ?q ?syn]
  have h1: "filter_data_by_sentiment example_reviews ''positive'' = Inr ?p"
    by (simp add: filter_positive example_reviews_def)
  from inst h1 have c1: "subseq ?p example_reviews" by blast
  from inst doctor_search have c2: "subseq ?q example_reviews" by blast
  from h1 c1 c2 show ?thesis by blast
qed

text \<open>
  Claim C2. The terms are joined into one pattern without escaping, so the special
  characters in a term act as pattern syntax. With the lemma \<open>Dr.\<close> among the synonyms of
  \<open>doctor\<close>, the review \<open>bad dream\<close> is kept although it contains none of the synonyms
  as a literal substring (the dot matches the \<open>e\<close>). With the synonym \<open>f(x)\<close> the review
  \<open>let f(x) be\<close> is dropped although it contains the term (the parentheses form a group).
  With the synonym \<open>:)\<close> the search fails with \<^verbatim>\<open>re.error\<close>.
\<close>

theorem search_terms_not_literal:
  "find_similar_words example_synsets re_compile example_reviews ''doctor''
     = Inr ([\<lparr>polarity = 1, title = ''sleep'', text_field = ''bad dream''\<rparr>,
             \<lparr>polarity = 2, title = ''visit'', text_field = ''my Doctor was kind''\<rparr>],
            [''doctor'', ''doc'', ''physician'', ''MD'', ''Dr.'', ''medico''])
   \<and> filter (\<lambda>t. contains_literal t ''bad dream'')
        [''doctor'', ''doc'', ''physician'', ''MD'', ''Dr.'', ''medico''] = []
   \<and> contains_literal ''f(x)'' ''let f(x) be''
   \<and> find_similar_words example_synsets re_compile
        [\<lparr>polarity = 2, title = ''maths'', text_field = ''let f(x) be''\<rparr>] ''f''
     = Inr ([], [''f(x)''])
   \<and> contains_literal '':)'' ''works :)''
   \<and> find_similar_words example_synsets re_compile
        [\<lparr>polarity = 2, title = ''happy'', text_field = ''works :)''\<rparr>] ''smiley''
     = Inl ReError"
  by code_simp

section \<open>Properties of the frequency summary\<close>

lemma set_first_seen: "set (first_seen xs) = set xs"
  by (induction xs) auto

lemma distinct_first_seen: "distinct (first_seen xs)"
  by (induction xs) (auto simp: distinct_removeAll)

lemma first_seen_snoc:
  "first_seen (xs @ [x]) = (if x \<in> set xs then first_seen xs else first_seen xs @ [x])"
  by (induction xs) auto

lemma counter_add_map:
  assumes "distinct ks"
  shows "counter_add (map (\<lambda>v. (v, f v)) ks) w =
     (if w \<in> set ks then map (\<lambda>v. (v, if v = w then f v + 1 else f v)) ks
      else map (\<lambda>v. (v, f v)) ks @ [(w, 1)])"
  using assms
proof (induction ks)
  case Nil
  then show ?case by simp
next
  case (Cons k ks)
  show ?case
  proof (cases "k = w")
    case True
    with Cons.prems have "w \<notin> set ks" by simp
    then have "map (\<lambda>v. (v, if v = w then f v + 1 else f v)) ks = map (\<lambda>v. (v, f v)) ks"
      by (intro map_cong) auto
    with True show ?thesis by simp
  next
    case False
    with Cons show ?thesis by simp
  qed
qed

lemma Counter_snoc: "Counter (ws @ [w]) = counter_add (Counter ws) w"
  by (simp add: Counter_def)

lemma Counter_counts: "Counter ws = map (\<lambda>v. (v, count_list ws v)) (first_seen ws)"
proof (induction ws rule: rev_induct)
  case Nil
  then show ?case by (simp add: Counter_def)
next
  case (snoc w ws)
  have step: "Counter (ws @ [w]) =
     (if w \<in> set ws then map (\<lambda>v. (v, if v = w then count_list ws v + 1 else count_list ws v))
                             (first_seen ws)
      else map (\<lambda>v. (v, count_list ws v)) (first_seen ws) @ [(w, 1)])"
    by (simp add: Counter_snoc snoc.IH counter_add_map [OF distinct_first_seen] set_first_seen)
  show ?case
  proof (cases "w \<in> set ws")
    case True
    then show ?thesis by (simp add: step first_seen_snoc)
  next
    case False
    then have "map (\<lambda>v. (v, count_list (ws @ [w]) v)) (first_seen ws)
       = map (\<lambda>v. (v, count_list ws v)) (first_seen ws)"
      by (intro map_cong) (auto simp: set_first_seen)
    with False show ?thesis by (simp add: step first_seen_snoc)
  qed
qed


lemma findall_words_run:
  "\<forall>c \<in> set u. is_word c \<Longrightarrow>
     findall_words is_word cur u = (if cur @ u = [] then [] else [cur @ u])"
  by (induction u arbitrary: cur) auto

lemma findall_words_split:
  "\<not> is_word c \<Longrightarrow>
     findall_words is_word cur (u @ c # v)
       = findall_words is_word cur u @ findall_words is_word [] v"
  by (induction u arbitrary: cur) auto

lemma findall_words_str_cat:
  assumes "\<not> is_word sp"
  shows "findall_words is_word [] (str_cat [sp] bodies)
     = concat (map (findall_words is_word []) bodies)"
proof (induction "[sp]" bodies rule: str_cat.induct)
  case 1
  show ?case by simp
next
  case (2 x)
  show ?case by simp
next
  case (3 x y ys)
  have "findall_words is_word [] (x @ sp # str_cat [sp] (y # ys))
     = findall_words is_word [] x @ findall_words is_word [] (str_cat [sp] (y # ys))"
    using assms by (rule findall_words_split)
  with 3 show ?case by simp
qed

lemma table_tokens_rows:
  assumes "\<not> is_word CHR '' ''"
  shows "table_tokens is_word data
     = concat (map (\<lambda>r. findall_words is_word [] (text_field r)) data)"
  using assms findall_words_str_cat [of is_word "CHR '' ''" "map text_field data"]
  by (simp add: table_tokens_def comp_def)

lemma sorted_by_count_desc: "sorted_wrt (\<lambda>a b. snd b \<le> snd a) (by_count_desc cnt)"
proof -
  have "sorted (map (\<lambda>(w, c). - int c) (by_count_desc cnt))"
    unfolding by_count_desc_def by (rule sorted_sort_key)
  then have "sorted_wrt (\<lambda>a b. (case a of (w, c) \<Rightarrow> - int c) \<le> (case b of (w, c) \<Rightarrow> - int c))
     (by_count_desc cnt)"
    by (simp add: sorted_wrt_map)
  then show ?thesis
    by (rule sorted_wrt_mono_rel [rotated]) (auto split: prod.splits)
qed

lemma stable_by_count_desc:
  "filter (\<lambda>p. snd p = k) (by_count_desc cnt) = filter (\<lambda>p. snd p = k) cnt"
proof -
  have eq: "(\<lambda>p :: string \<times> nat. snd p = k) = (\<lambda>p. (case p of (w, c) \<Rightarrow> - int c) = - int k)"
    by (auto simp: fun_eq_iff)
  show ?thesis
    unfolding eq by_count_desc_def by (rule sort_key_stable)
qed

lemma generate_word_cloud_ranked:
  "generate_word_cloud is_word data =
     map (\<lambda>(w, c). PyStr w) (take 20 (by_count_desc (Counter (table_tokens is_word data))))"
  by (simp add: generate_word_cloud_def most_common_def table_tokens_def)

lemma cat_dog_cloud:
  "generate_word_cloud is_word_char cat_dog_table = [PyStr ''cat'', PyStr ''dog'', PyStr ''bird'']"
  unfolding cat_dog_table_def by code_simp

text \<open>
  A letter of the upper half is a word character: the accented word is one token, and it
  is not the same token as the unaccented one.
\<close>

lemma accented_word_cloud:
  "generate_word_cloud is_word_char
     [\<lparr>polarity = 2, title = ''coffee'', text_field = ''caf'' @ [CHR 0xE9] @ '' caf''\<rparr>]
   = [PyStr (''caf'' @ [CHR 0xE9]), PyStr ''caf'']"
  by code_simp

text \<open>
  Claim C3, as the code has it. The summary is a list of at most 20 tokens, without their
  counts, whatever the class of word characters is. The tokens of the table are the
  tokens of the bodies joined with a space: when the space is not a word character,
  these are the tokens of the first body, then those of the second, and so on. The tokens
  of a string are its maximal runs of word characters: a non-empty string of word
  characters is one token, and a character that is not a word character separates the
  tokens before it from the tokens after it. The counter holds every distinct token once,
  in the order of first occurrence, with the number of its (case-sensitive) occurrences;
  the ranking orders these entries by descending count and keeps entries of equal count
  in that order; the summary is the tokens of the first 20 entries of the ranking. On the
  bodies \<open>cat dog cat\<close> and \<open>dog bird\<close> it is \<open>cat\<close>, \<open>dog\<close>, \<open>bird\<close>.
\<close>

theorem word_cloud_ranking:
  "generate_word_cloud is_word data =
     map (\<lambda>(w, c). PyStr w)
       (take 20 (by_count_desc
          (map (\<lambda>w. (w, count_list (table_tokens is_word data) w))
               (first_seen (table_tokens is_word data)))))
   \<and> length (generate_word_cloud is_word data) \<le> 20
   \<and> table_tokens is_word data = findall_words is_word [] (str_cat '' '' (map text_field data))
   \<and> (\<not> is_word CHR '' '' \<longrightarrow>
        table_tokens is_word data
          = concat (map (\<lambda>r. findall_words is_word [] (text_field r)) data))
   \<and> ((\<forall>x \<in> set u. is_word x) \<longrightarrow>
        findall_words is_word [] u = (if u = [] then [] else [u]))
   \<and> (\<not> is_word c \<longrightarrow>
        findall_words is_word [] (u @ c # v)
          = findall_words is_word [] u @ findall_words is_word [] v)
   \<and> Counter ws = map (\<lambda>w. (w, count_list ws w)) (first_seen ws)
   \<and> set (by_count_desc cnt) = set cnt
   \<and> length (by_count_desc cnt) = length cnt
   \<and> sorted_wrt (\<lambda>a b. snd b \<le> snd a) (by_count_desc cnt)
   \<and> filter (\<lambda>p. snd p = k) (by_count_desc cnt) = filter (\<lambda>p. snd p = k) cnt
   \<and> generate_word_cloud is_word_char cat_dog_table
       = [PyStr ''cat'', PyStr ''dog'', PyStr ''bird'']"
proof -
  have ranked: "generate_word_cloud is_word data =
     map (\<lambda>(w, c). PyStr w)
       (take 20 (by_count_desc
          (map (\<lambda>w. (w, count_list (table_tokens is_word data) w))
               (first_seen (table_tokens is_word data)))))"
    by (simp only: generate_word_cloud_ranked Counter_counts)
  have len: "length (generate_word_cloud is_word data) \<le> 20"
    by (simp add: generate_word_cloud_ranked)
  have toks: "table_tokens is_word data
     = findall_words is_word [] (str_cat '' '' (map text_field data))"
    by (simp add: table_tokens_def)
  have run: "findall_words is_word [] u = (if u = [] then [] else [u])"
    if "\<forall>x \<in> set u. is_word x"
    using findall_words_run [OF that, of "[]"] by simp
  have perm: "set (by_count_desc cnt) = set cnt \<and> length (by_count_desc cnt) = length cnt"
    by (simp add: by_count_desc_def)
  from ranked len toks run perm show ?thesis
    using table_tokens_rows [of is_word data] findall_words_split [of is_word c "[]" u v]
      Counter_counts [of ws] sorted_by_count_desc [of cnt] stable_by_count_desc [of k cnt]
      cat_dog_cloud
    by blast
qed

theorem word_cloud_ranking_witness:
  "findall_words is_word_char [] ''cat'' = [''cat'']
   \<and> findall_words is_word_char [] ''cat dog''
       = findall_words is_word_char [] ''cat'' @ findall_words is_word_char [] ''dog''
   \<and> table_tokens is_word_char cat_dog_table
       = concat (map (\<lambda>r. findall_words is_word_char [] (text_field r)) cat_dog_table)
   \<and> table_tokens is_word_char cat_dog_table = [''cat'', ''dog'', ''cat'', ''dog'', ''bird'']"
proof -
  note inst = word_cloud_ranking
    [where is_word = is_word_char and data = cat_dog_table and u = "''cat''"
       and c = "CHR '' ''" and v = "''dog''" and ws = "[]" and cnt = "[]" and k = 0]
  have h1: "\<forall>x \<in> set ''cat''. is_word_char x" by code_simp
  have h2: "\<not> is_word_char CHR '' ''" by code_simp
  from inst h1 have "findall_words is_word_char [] ''cat''
     = (if ''cat'' = [] then [] else [''cat''])" by blast
  then have c1: "findall_words is_word_char [] ''cat'' = [''cat'']" by simp
  from inst h2 have "findall_words is_word_char [] (''cat'' @ CHR '' '' # ''dog'')
     = findall_words is_word_char [] ''cat'' @ findall_words is_word_char [] ''dog''" by blast
  then have c2: "findall_words is_word_char [] ''cat dog''
     = findall_words is_word_char [] ''cat'' @ findall_words is_word_char [] ''dog''" by simp
  from inst h2 have c3: "table_tokens is_word_char cat_dog_table
     = concat (map (\<lambda>r. findall_words is_word_char [] (text_field r)) cat_dog_table)" by blast
  have c4: "table_tokens is_word_char cat_dog_table = [''cat'', ''dog'', ''cat'', ''dog'', ''bird'']"
    unfolding cat_dog_table_def by code_simp
  from c1 c2 c3 c4 show ?thesis by blast
qed

theorem word_cloud_returns_no_counts:
  "generate_word_cloud is_word_char cat_dog_table
     \<noteq> [PyTuple ''cat'' 2, PyTuple ''dog'' 2, PyTuple ''bird'' 1]"
  by (simp add: cat_dog_cloud)

end
